theory Spec2Isabelle
  imports Main "HOL-Library.AList"
begin

section \<open>Values, errors and collaborators\<close>

text \<open>
  The engine is Python. Its dictionaries (\<open>Dict[str, Any]\<close>) keep insertion order and
  assigning to a key that exists keeps its place, which is what \<open>AList.update\<close> does on an
  association list: every dictionary is modelled as one, read with \<open>map_of\<close>. The values
  stored in \<open>variables\<close> and \<open>config\<close> are the JSON-like values below (floating point
  numbers are left out). Strings are lists of characters with code points below 256.
\<close>

datatype pyval =
    VNone
  | VBool bool
  | VInt int
  | VStr string
  | VList "pyval list"
  | VDict "(string \<times> pyval) list"

text \<open>
  Every \<open>raise\<close> of the source is a constructor; the comment gives the Python exception.
\<close>

datatype error =
    MissingConfig string       \<comment> \<open>ValueError: Node <id> missing required ... config\<close>
  | ExtractNotList string      \<comment> \<open>ValueError: Node <id> 'extract' config must be a list\<close>
  | VariablesNotDict string    \<comment> \<open>ValueError: Node <id> 'variables' config must be a dictionary\<close>
  | NoUserMessage              \<comment> \<open>ValueError: LLM node requires a user message\<close>
  | ConditionNotBoolean string \<comment> \<open>ValueError: Condition '<c>' must evaluate to boolean\<close>
  | TooManyValues              \<comment> \<open>ValueError: too many values to unpack (expected 2)\<close>
  | KeyError string            \<comment> \<open>KeyError: subscript of a dictionary at an absent key\<close>
  | NotAString                 \<comment> \<open>TypeError: a string operation applied to a non-string\<close>
  | Unhashable                 \<comment> \<open>TypeError: unhashable type, in a dictionary membership test\<close>
  | ContentNotStr              \<comment> \<open>pydantic ValidationError: Message.content is not a string\<close>
  | External string            \<comment> \<open>whatever a library or the text-generation backend raises\<close>

datatype parsed = ParsedResult string

text \<open>
  What the engine calls but the repository does not define: the builtin \<open>str\<close> on values
  that are not strings, the JMESPath library, and the text-generation client behind
  \<open>LLMClient.get_client().complete(prompt, system, json_mode)\<close>.
\<close>

record env =
  builtin_str :: "pyval \<Rightarrow> string"
  jmespath_compile :: "string \<Rightarrow> error + parsed"
  jmespath_search :: "parsed \<Rightarrow> pyval \<Rightarrow> error + pyval"
  llm_complete :: "string \<Rightarrow> string \<Rightarrow> bool \<Rightarrow> error + pyval"

definition py_str :: "env \<Rightarrow> pyval \<Rightarrow> string" where
  "py_str E v = (case v of VStr s \<Rightarrow> s | _ \<Rightarrow> builtin_str E v)"

section \<open>String helpers\<close>

definition py_isspace :: "char \<Rightarrow> bool" where
  "py_isspace c = (c \<in> set [CHR 0x09, CHR 0x0A, CHR 0x0B, CHR 0x0C, CHR 0x0D,
       CHR 0x1C, CHR 0x1D, CHR 0x1E, CHR 0x1F, CHR 0x20, CHR 0x85, CHR 0xA0])"

definition strip_ws :: "string \<Rightarrow> string" where
  \<comment> \<open>\<open>s.strip()\<close>\<close>
  "strip_ws s = rev (dropWhile py_isspace (rev (dropWhile py_isspace s)))"

definition strip_chars :: "string \<Rightarrow> string \<Rightarrow> string" where
  \<comment> \<open>\<open>s.strip(cs)\<close>\<close>
  "strip_chars cs s = rev (dropWhile (\<lambda>c. c \<in> set cs) (rev (dropWhile (\<lambda>c. c \<in> set cs) s)))"

section \<open>utils/templating.py\<close>

text \<open>
  \<open>render_template\<close> is \<open>re.sub(r"\{\{(.*?)\}\}", replace, template)\<close>. The regular
  expression is matched by hand: after an opening \<open>{{\<close> the lazy \<open>.*?\<close> stops at the first
  \<open>}}\<close> and gives up at a newline (which \<open>.\<close> does not match) or at the end of the text.
  \<open>find_close\<close> returns group 1 and the text after the match; \<open>re.sub\<close> resumes there.
\<close>

fun find_close :: "string \<Rightarrow> (string \<times> string) option" where
  "find_close [] = None"
| "find_close (c # cs) =
     (if c = CHR ''}'' \<and> (case cs of [] \<Rightarrow> False | d # _ \<Rightarrow> d = CHR ''}'') then Some ([], tl cs)
      else if c = CHR 0x0A then None
      else (case find_close cs of
              None \<Rightarrow> None
            | Some (inner, rest) \<Rightarrow> Some (c # inner, rest)))"

fun match_placeholder :: "string \<Rightarrow> (string \<times> string) option" where
  "match_placeholder (c # d # cs) =
     (if c = CHR ''{'' \<and> d = CHR ''{'' then find_close cs else None)"
| "match_placeholder _ = None"

definition replace :: "env \<Rightarrow> (string \<times> pyval) list \<Rightarrow> string \<Rightarrow> string" where
  "replace E variables inner =
     (let var_name = strip_ws inner in
      case map_of variables var_name of
        None \<Rightarrow> ''{{'' @ inner @ ''}}''
      | Some v \<Rightarrow> py_str E v)"

lemma find_close_shape:
  "find_close s = Some (inner, rest) \<Longrightarrow> s = inner @ ''}}'' @ rest"
proof (induction s arbitrary: inner rest)
  case Nil
  then show ?case by simp
next
  case (Cons c cs)
  show ?case
  proof (cases "c = CHR ''}'' \<and> (case cs of [] \<Rightarrow> False | d # _ \<Rightarrow> d = CHR ''}'')")
    case True
    with Cons.prems show ?thesis by (cases cs) auto
  next
    case False
    with Cons.prems obtain i where i: "find_close cs = Some (i, rest)" "inner = c # i"
      by (auto split: if_splits option.splits)
    from Cons.IH [OF i(1)] i(2) show ?thesis by simp
  qed
qed

lemma match_placeholder_shape:
  "match_placeholder s = Some (inner, rest) \<Longrightarrow> s = ''{{'' @ inner @ ''}}'' @ rest"
proof (cases s rule: match_placeholder.cases)
  case (1 c d cs)
  assume "match_placeholder s = Some (inner, rest)"
  with 1 have "c = CHR ''{''" "d = CHR ''{''" "find_close cs = Some (inner, rest)"
    by (auto split: if_splits)
  with 1 find_close_shape [of cs inner rest] show ?thesis by simp
qed auto

lemma match_placeholder_shorter:
  "match_placeholder s = Some (inner, rest) \<Longrightarrow> length rest < length s"
  by (drule match_placeholder_shape) simp

function render_template :: "env \<Rightarrow> string \<Rightarrow> (string \<times> pyval) list \<Rightarrow> string" where
  "render_template E [] variables = []"
| "render_template E (c # cs) variables =
     (case match_placeholder (c # cs) of
        Some (inner, rest) \<Rightarrow> replace E variables inner @ render_template E rest variables
      | None \<Rightarrow> c # render_template E cs variables)"
  by pat_completeness auto
termination
  by (relation "measure (\<lambda>(E, t, variables). length t)")
     (auto dest: match_placeholder_shorter)

text \<open>
  The matches of the regular expression cut a template into literal characters and
  placeholders; the cut does not look at the variables.
\<close>

datatype piece = Lit char | Hole string

function pieces :: "string \<Rightarrow> piece list" where
  "pieces [] = []"
| "pieces (c # cs) =
     (case match_placeholder (c # cs) of
        Some (inner, rest) \<Rightarrow> Hole inner # pieces rest
      | None \<Rightarrow> Lit c # pieces cs)"
  by pat_completeness auto
termination
  by (relation "measure length") (auto dest: match_placeholder_shorter)

fun piece_text :: "piece \<Rightarrow> string" where
  "piece_text (Lit c) = [c]"
| "piece_text (Hole inner) = ''{{'' @ inner @ ''}}''"

fun render_piece :: "env \<Rightarrow> (string \<times> pyval) list \<Rightarrow> piece \<Rightarrow> string" where
  "render_piece E variables (Lit c) = [c]"
| "render_piece E variables (Hole inner) =
     (case map_of variables (strip_ws inner) of
        None \<Rightarrow> piece_text (Hole inner)
      | Some v \<Rightarrow> py_str E v)"

lemma pieces_text: "concat (map piece_text (pieces t)) = t"
proof (induction t rule: pieces.induct)
  case 1
  show ?case by simp
next
  case (2 c cs)
  show ?case
  proof (cases "match_placeholder (c # cs)")
    case None
    with 2 show ?thesis by simp
  next
    case (Some p)
    obtain inner rest where p: "p = (inner, rest)" by (cases p)
    from Some p have m: "match_placeholder (c # cs) = Some (inner, rest)" by simp
    from "2.IH"(2) [OF m refl] have "concat (map piece_text (pieces rest)) = rest" .
    with m match_placeholder_shape [OF m] show ?thesis by simp
  qed
qed

lemma render_template_pieces:
  "render_template E t variables = concat (map (render_piece E variables) (pieces t))"
proof (induction E t variables rule: render_template.induct)
  case (1 E variables)
  show ?case by simp
next
  case (2 E c cs variables)
  show ?case
  proof (cases "match_placeholder (c # cs)")
    case None
    with 2 show ?thesis by simp
  next
    case (Some p)
    obtain inner rest where p: "p = (inner, rest)" by (cases p)
    from Some p have m: "match_placeholder (c # cs) = Some (inner, rest)" by simp
    from "2.IH"(2) [OF m refl] m show ?thesis
      by (simp add: replace_def split: option.splits)
  qed
qed

lemma render_template_empty: "render_template E t [] = t"
proof -
  have "render_piece E [] x = piece_text x" for x
    by (cases x) simp_all
  then have "map (render_piece E []) (pieces t) = map piece_text (pieces t)"
    by simp
  then show ?thesis by (simp only: render_template_pieces pieces_text)
qed

text \<open>
  Claim C9. For every template and every variable dictionary, \<open>render_template\<close> returns a
  string (it has no failing branch): the template cut at the matches of the regular
  expression, each literal character kept, each placeholder whose stripped name is a key
  replaced by the \<open>str\<close> of its value, and each placeholder whose name is not a key left
  exactly as it is written. With the empty dictionary the output is the template.
\<close>

theorem render_template_unknown_verbatim:
  "render_template E t variables = concat (map (render_piece E variables) (pieces t))
   \<and> concat (map piece_text (pieces t)) = t
   \<and> render_template E t [] = t"
  by (simp add: render_template_pieces [symmetric] pieces_text render_template_empty)

section \<open>domain/models.py\<close>

datatype NodeType = PROMPT | LLM | IF | SET_VAR | OUTPUT

record Node =
  node_id :: string
  node_type :: NodeType
  config :: "(string \<times> pyval) list"
  node_next :: "string option"

record Edge =
  edge_id :: string
  source :: string
  target :: string
  condition :: "string option"

record Workflow =
  wf_id :: string
  wf_name :: string
  version :: int
  wf_variables :: "(string \<times> pyval) list"
  nodes :: "Node list"
  edges :: "Edge list option"

record Message =
  role :: string
  content :: string
  msg_name :: "string option"

record ConversationState =
  messages :: "Message list"
  variables :: "(string \<times> pyval) list"
  last_node :: "string option"
  is_done :: bool

definition new_message :: "string \<Rightarrow> string \<Rightarrow> Message" where
  \<comment> \<open>\<open>Message(role=r, content=c)\<close> with a string content\<close>
  "new_message r c = \<lparr>role = r, content = c, msg_name = None\<rparr>"

definition empty_state :: ConversationState where
  \<comment> \<open>\<open>ConversationState()\<close>\<close>
  "empty_state = \<lparr>messages = [], variables = [], last_node = None, is_done = False\<rparr>"

text \<open>\<open>state.model_dump()\<close>: the state as plain dictionaries and lists.\<close>

definition dump_option :: "string option \<Rightarrow> pyval" where
  "dump_option x = (case x of None \<Rightarrow> VNone | Some s \<Rightarrow> VStr s)"

definition dump_message :: "Message \<Rightarrow> pyval" where
  "dump_message m =
     VDict [(''role'', VStr (role m)), (''content'', VStr (content m)),
            (''name'', dump_option (msg_name m))]"

definition model_dump :: "ConversationState \<Rightarrow> pyval" where
  "model_dump state =
     VDict [(''messages'', VList (map dump_message (messages state))),
            (''variables'', VDict (variables state)),
            (''last_node'', dump_option (last_node state)),
            (''done'', VBool (is_done state))]"

section \<open>core/router.py\<close>

fun contains_eqeq :: "string \<Rightarrow> bool" where
  \<comment> \<open>\<open>"==" in condition\<close>\<close>
  "contains_eqeq (c # d # cs) = ((c = CHR ''='' \<and> d = CHR ''='') \<or> contains_eqeq (d # cs))"
| "contains_eqeq _ = False"

fun split_eqeq :: "string \<Rightarrow> string list" where
  \<comment> \<open>\<open>condition.split("==")\<close>: cut at every occurrence, left to right, without overlap\<close>
  "split_eqeq (c # d # cs) =
     (if c = CHR ''='' \<and> d = CHR ''='' then [] # split_eqeq cs
      else (case split_eqeq (d # cs) of
              [] \<Rightarrow> [[c]]
            | p # ps \<Rightarrow> (c # p) # ps))"
| "split_eqeq s = [s]"

definition py_eq_str :: "pyval \<Rightarrow> string \<Rightarrow> bool" where
  \<comment> \<open>Python's \<open>v == s\<close> for a string \<open>s\<close>: only an equal string is equal to it\<close>
  "py_eq_str v s = (case v of VStr t \<Rightarrow> t = s | _ \<Rightarrow> False)"

definition dict_get :: "(string \<times> pyval) list \<Rightarrow> string \<Rightarrow> pyval" where
  \<comment> \<open>\<open>d.get(k)\<close>\<close>
  "dict_get d k = (case map_of d k of None \<Rightarrow> VNone | Some v \<Rightarrow> v)"

definition check_equality :: "string \<Rightarrow> string \<Rightarrow> ConversationState \<Rightarrow> error + bool" where
  "check_equality var val state = Inr (py_eq_str (dict_get (variables state) var) val)"

definition evaluate_expression ::
  "env \<Rightarrow> string \<Rightarrow> parsed \<Rightarrow> ConversationState \<Rightarrow> error + bool" where
  "evaluate_expression E cond expression state =
     (let state_dict = model_dump state in
      case jmespath_search E expression state_dict of
        Inl e \<Rightarrow> Inl e
      | Inr result \<Rightarrow>
          (case result of
             VBool b \<Rightarrow> Inr b
           | _ \<Rightarrow> Inl (ConditionNotBoolean cond)))"

definition create_router ::
  "env \<Rightarrow> string \<Rightarrow> error + (ConversationState \<Rightarrow> error + bool)" where
  "create_router E cond =
     (if contains_eqeq cond then
        (case split_eqeq cond of
           [var, val] \<Rightarrow>
             Inr (check_equality (strip_ws var) (strip_chars [CHR 0x22, CHR 0x27] (strip_ws val)))
         | _ \<Rightarrow> Inl TooManyValues)
      else
        (case jmespath_compile E cond of
           Inl e \<Rightarrow> Inl e
         | Inr expression \<Rightarrow> Inr (evaluate_expression E cond expression)))"

fun count_eqeq :: "string \<Rightarrow> nat" where
  \<comment> \<open>\<open>condition.count("==")\<close>: the occurrences that \<open>split\<close> cuts at\<close>
  "count_eqeq (c # d # cs) =
     (if c = CHR ''='' \<and> d = CHR ''='' then Suc (count_eqeq cs) else count_eqeq (d # cs))"
| "count_eqeq _ = 0"

lemma split_eqeq_nonempty: "split_eqeq s \<noteq> []"
  by (induction s rule: split_eqeq.induct) (auto split: list.splits)

lemma split_eqeq_length: "length (split_eqeq s) = Suc (count_eqeq s)"
  by (induction s rule: split_eqeq.induct) (auto simp: split_eqeq_nonempty split: list.splits)

lemma contains_eqeq_count: "contains_eqeq s \<longleftrightarrow> 0 < count_eqeq s"
  by (induction s rule: count_eqeq.induct) auto

lemma split_eqeq_single: "split_eqeq s = [b] \<Longrightarrow> s = b"
  by (induction s arbitrary: b rule: split_eqeq.induct)
     (auto simp: split_eqeq_nonempty split: if_splits list.splits)

lemma split_eqeq_two:
  "split_eqeq s = [a, b] \<Longrightarrow> s = a @ ''=='' @ b \<and> \<not> contains_eqeq (a @ ''='')"
proof (induction s arbitrary: a rule: split_eqeq.induct)
  case (1 c d cs)
  show ?case
  proof (cases "c = CHR ''='' \<and> d = CHR ''=''")
    case True
    with "1.prems" have "a = []" "split_eqeq cs = [b]" by auto
    with True split_eqeq_single [of cs b] show ?thesis by simp
  next
    case False
    with "1.prems" obtain p where p: "split_eqeq (d # cs) = [p, b]" "a = c # p"
      by (auto split: list.splits)
    from "1.IH"(2) [OF False p(1)]
    have ih: "d # cs = p @ ''=='' @ b" "\<not> contains_eqeq (p @ ''='')" by simp_all
    show ?thesis
    proof (cases p)
      case Nil
      with ih p False show ?thesis by auto
    next
      case (Cons d' p')
      with ih p False show ?thesis by auto
    qed
  qed
qed simp_all

text \<open>
  A small collaborator set for concrete runs: \<open>str\<close> of a non-string is a fixed marker,
  JMESPath knows the expressions that are one identifier (a field of the dumped state,
  \<open>null\<close> when absent), and the text-generation backend answers with a fixed object.
\<close>

definition demo_search :: "parsed \<Rightarrow> pyval \<Rightarrow> error + pyval" where
  "demo_search p v =
     (case p of ParsedResult field \<Rightarrow>
        (case v of VDict d \<Rightarrow> Inr (dict_get d field) | _ \<Rightarrow> Inr VNone))"

definition demo_env :: env where
  "demo_env =
     \<lparr>builtin_str = (\<lambda>v. ''<value>''),
      jmespath_compile = (\<lambda>s. Inr (ParsedResult s)),
      jmespath_search = demo_search,
      llm_complete = (\<lambda>prompt system json_mode.
         Inr (VDict [(''response'', VStr ''Nice to meet you''), (''name'', VStr ''Alice'')]))\<rparr>"

definition quoted :: "string \<Rightarrow> string" where
  \<comment> \<open>a text between two single quote characters\<close>
  "quoted s = [CHR 0x27] @ s @ [CHR 0x27]"

text \<open>
  Claim C5, as amended. For every condition string in which \<open>==\<close> occurs exactly once
  (\<open>split\<close> cuts it into two parts), \<open>create_router\<close> returns a predicate: the condition is
  \<open>a == b\<close> cut at its first \<open>==\<close>, the variable name is \<open>a\<close> stripped of whitespace, the
  literal is \<open>b\<close> stripped of whitespace and then of surrounding quote characters, and the
  predicate is true exactly when the variable is stored and its value is the string equal to
  the literal (no value of another type is equal to it).
\<close>

theorem create_router_single_equality:
  assumes "count_eqeq cond = 1"
  shows "\<exists>a b r. cond = a @ ''=='' @ b \<and> \<not> contains_eqeq (a @ ''='')
           \<and> create_router E cond = Inr r
           \<and> (\<forall>state. r state =
                 Inr (map_of (variables state) (strip_ws a)
                      = Some (VStr (strip_chars [CHR 0x22, CHR 0x27] (strip_ws b)))))"
proof -
  from assms have len: "length (split_eqeq cond) = 2"
    by (simp add: split_eqeq_length)
  then obtain a b where ab: "split_eqeq cond = [a, b]"
    by (cases "split_eqeq cond"; cases "tl (split_eqeq cond)") auto
  from assms have c: "contains_eqeq cond"
    by (simp add: contains_eqeq_count)
  let ?r = "check_equality (strip_ws a) (strip_chars [CHR 0x22, CHR 0x27] (strip_ws b))"
  have r: "create_router E cond = Inr ?r"
    using ab c by (simp add: create_router_def)
  have ev: "?r state =
        Inr (map_of (variables state) (strip_ws a)
             = Some (VStr (strip_chars [CHR 0x22, CHR 0x27] (strip_ws b))))" for state
    by (auto simp: check_equality_def py_eq_str_def dict_get_def split: option.splits pyval.splits)
  from split_eqeq_two [OF ab] r ev show ?thesis by blast
qed

theorem create_router_single_equality_witness:
  "count_eqeq (''x == '' @ quoted ''a'') = 1
   \<and> (\<exists>a b r. ''x == '' @ quoted ''a'' = a @ ''=='' @ b \<and> \<not> contains_eqeq (a @ ''='')
           \<and> create_router demo_env (''x == '' @ quoted ''a'') = Inr r
           \<and> (\<forall>state. r state =
                 Inr (map_of (variables state) (strip_ws a)
                      = Some (VStr (strip_chars [CHR 0x22, CHR 0x27] (strip_ws b))))))"
proof -
  have h: "count_eqeq (''x == '' @ quoted ''a'') = 1" by (simp add: quoted_def)
  from h create_router_single_equality [OF h, of demo_env] show ?thesis by simp
qed

text \<open>
  The claim as it was stated fails on a condition with two \<open>==\<close>, here
  \<open>x == 'a==b'\<close>: \<open>split\<close> returns three parts, unpacking them into two names raises,
  and no predicate is returned.
\<close>

theorem create_router_two_equalities_raises:
  "create_router demo_env (''x == '' @ quoted ''a==b'') = Inl TooManyValues"
  by (simp add: create_router_def quoted_def)

text \<open>
  Claim C8. For every condition string without \<open>==\<close> that JMESPath compiles,
  \<open>create_router\<close> returns a predicate that searches the dumped state with the compiled
  expression: a boolean result is returned as it is, any other result raises the
  not-a-boolean error, and an error of the search itself is passed on.
\<close>

theorem create_router_expression_boolean:
  assumes "\<not> contains_eqeq cond" and "jmespath_compile E cond = Inr expression"
  shows "\<exists>r. create_router E cond = Inr r
           \<and> (\<forall>state. r state =
                 (case jmespath_search E expression (model_dump state) of
                    Inl e \<Rightarrow> Inl e
                  | Inr result \<Rightarrow>
                      (case result of
                         VBool b \<Rightarrow> Inr b
                       | _ \<Rightarrow> Inl (ConditionNotBoolean cond))))"
  using assms by (simp add: create_router_def evaluate_expression_def)

theorem create_router_expression_boolean_witness:
  "\<not> contains_eqeq ''last_node''
   \<and> jmespath_compile demo_env ''last_node'' = Inr (ParsedResult ''last_node'')
   \<and> (\<exists>r. create_router demo_env ''last_node'' = Inr r
           \<and> r empty_state = Inl (ConditionNotBoolean ''last_node''))"
proof -
  have h1: "\<not> contains_eqeq ''last_node''" by simp
  have h2: "jmespath_compile demo_env ''last_node'' = Inr (ParsedResult ''last_node'')"
    by (simp add: demo_env_def)
  have s: "jmespath_search demo_env (ParsedResult ''last_node'') (model_dump empty_state)
             = Inr VNone"
    by (simp add: demo_env_def demo_search_def model_dump_def empty_state_def dict_get_def
          dump_option_def)
  from create_router_expression_boolean [OF h1 h2] s h1 h2 show ?thesis
    by auto
qed

section \<open>domain/nodes: the node executors\<close>

text \<open>
  An executor receives the caller's state object, changes it in place and returns the same
  object. The model passes the state through; when an executor raises, the state is carried
  by \<open>Raised\<close> as the object was left at that moment, because the caller still holds it.
\<close>

datatype outcome = Returned ConversationState | Raised error ConversationState

definition store_last_user :: "string \<Rightarrow> ConversationState \<Rightarrow> ConversationState" where
  \<comment> \<open>\<open>if state.messages and state.messages[-1].role == "user": state.variables[key] = ...\<close>\<close>
  "store_last_user key state =
     (case messages state of
        [] \<Rightarrow> state
      | _ # _ \<Rightarrow>
          if role (last (messages state)) = ''user''
          then state\<lparr>variables :=
                 AList.update key (VStr (content (last (messages state)))) (variables state)\<rparr>
          else state)"

definition prompt_fn :: "env \<Rightarrow> Node \<Rightarrow> ConversationState \<Rightarrow> outcome" where
  "prompt_fn E node state =
     (let state1 = store_last_user ''user_input'' state in
      case map_of (config node) ''text'' of
        None \<Rightarrow> Raised (KeyError ''text'') state1
      | Some tv \<Rightarrow>
          (case tv of
             VStr t \<Rightarrow>
               Returned (state1\<lparr>messages := messages state1 @
                           [new_message ''assistant'' (render_template E t (variables state1))],
                         last_node := Some (node_id node)\<rparr>)
           | _ \<Rightarrow> Raised NotAString state1))"

definition output_fn :: "env \<Rightarrow> Node \<Rightarrow> ConversationState \<Rightarrow> outcome" where
  "output_fn E node state =
     (let state1 = store_last_user ''name'' state in
      case map_of (config node) ''text'' of
        None \<Rightarrow> Raised (KeyError ''text'') state1
      | Some tv \<Rightarrow>
          (case tv of
             VStr t \<Rightarrow>
               Returned (state1\<lparr>messages := messages state1 @
                           [new_message ''assistant'' (render_template E t (variables state1))],
                         last_node := Some (node_id node),
                         is_done := True\<rparr>)
           | _ \<Rightarrow> Raised NotAString state1))"

definition last_user_message :: "Message list \<Rightarrow> Message option" where
  \<comment> \<open>the loop over \<open>reversed(state.messages)\<close>\<close>
  "last_user_message msgs = find (\<lambda>msg. role msg = ''user'') (rev msgs)"

definition system_instruction :: string where
  "system_instruction = ''Extract information from the user'' @ [CHR 0x27] @ ''s message.''"

fun extract_fields ::
  "pyval list \<Rightarrow> (string \<times> pyval) list \<Rightarrow> (string \<times> pyval) list
     \<Rightarrow> error + (string \<times> pyval) list" where
  \<comment> \<open>\<open>for field in extract: if field in result: extracted[field] = result[field]\<close>; the keys
      of \<open>result\<close> are strings, and a list or a dictionary cannot be looked up\<close>
  "extract_fields [] result extracted = Inr extracted"
| "extract_fields (field # rest) result extracted =
     (case field of
        VStr k \<Rightarrow>
          (case map_of result k of
             Some v \<Rightarrow> extract_fields rest result (AList.update k v extracted)
           | None \<Rightarrow> extract_fields rest result extracted)
      | VList _ \<Rightarrow> Inl Unhashable
      | VDict _ \<Rightarrow> Inl Unhashable
      | _ \<Rightarrow> extract_fields rest result extracted)"

definition dict_update :: "(string \<times> pyval) list \<Rightarrow> (string \<times> pyval) list \<Rightarrow> (string \<times> pyval) list" where
  \<comment> \<open>\<open>d.update(other)\<close>\<close>
  "dict_update d other = fold (\<lambda>kv. AList.update (fst kv) (snd kv)) other d"

definition llm_fn :: "env \<Rightarrow> Node \<Rightarrow> ConversationState \<Rightarrow> outcome" where
  "llm_fn E node state =
     (case last_user_message (messages state) of
        None \<Rightarrow> Raised NoUserMessage state
      | Some user_message \<Rightarrow>
          (case map_of (config node) ''prompt'' of
             None \<Rightarrow> Raised (KeyError ''prompt'') state
           | Some pv \<Rightarrow>
               (case pv of
                  VStr p \<Rightarrow>
                    (let prompt = render_template E p
                           (AList.update ''user_input'' (VStr (content user_message))
                              (variables state)) in
                     case llm_complete E prompt system_instruction True of
                       Inl e \<Rightarrow> Raised e state
                     | Inr result \<Rightarrow>
                         (case result of
                            VDict d \<Rightarrow>
                              (case map_of (config node) ''extract'' of
                                 None \<Rightarrow> Raised (KeyError ''extract'') state
                               | Some ev \<Rightarrow>
                                   (case ev of
                                      VList extract \<Rightarrow>
                                        (case extract_fields extract d [] of
                                           Inl e \<Rightarrow> Raised e state
                                         | Inr extracted \<Rightarrow>
                                             (let state1 = state\<lparr>variables :=
                                                    dict_update (variables state) extracted\<rparr> in
                                              case map_of extracted ''response'' of
                                                None \<Rightarrow>
                                                  Returned (state1\<lparr>messages := messages state1 @
                                                      [new_message ''assistant'' (py_str E result)],
                                                    last_node := Some (node_id node)\<rparr>)
                                              | Some rv \<Rightarrow>
                                                  (case rv of
                                                     VStr s \<Rightarrow>
                                                       Returned (state1\<lparr>messages :=
                                                           messages state1 @
                                                           [new_message ''assistant'' s],
                                                         last_node := Some (node_id node)\<rparr>)
                                                   | _ \<Rightarrow> Raised ContentNotStr state1)))
                                    | _ \<Rightarrow> Raised (ExtractNotList (node_id node)) state))
                          | _ \<Rightarrow> Returned (state\<lparr>last_node := Some (node_id node)\<rparr>)))
                | _ \<Rightarrow> Raised NotAString state)))"

definition if_fn ::
  "Node \<Rightarrow> (ConversationState \<Rightarrow> error + bool) \<Rightarrow> ConversationState \<Rightarrow> outcome" where
  "if_fn node router state =
     (case router state of
        Inl e \<Rightarrow> Raised e state
      | Inr result \<Rightarrow>
          (let key = (if result then ''true_target'' else ''false_target'') in
           case map_of (config node) key of
             None \<Rightarrow> Raised (KeyError key) state
           | Some next_node \<Rightarrow>
               Returned (state\<lparr>last_node := Some (node_id node),
                         variables := AList.update ''_next'' next_node (variables state)\<rparr>)))"

datatype compiled = Expression parsed | Static pyval

fun compile_expressions ::
  "env \<Rightarrow> (string \<times> pyval) list \<Rightarrow> (string \<times> compiled) list
     \<Rightarrow> error + (string \<times> compiled) list" where
  "compile_expressions E [] expressions = Inr expressions"
| "compile_expressions E ((var_name, expr) # rest) expressions =
     (case expr of
        VStr s \<Rightarrow>
          (case jmespath_compile E s of
             Inl e \<Rightarrow> Inl e
           | Inr p \<Rightarrow> compile_expressions E rest (AList.update var_name (Expression p) expressions))
      | _ \<Rightarrow> compile_expressions E rest (AList.update var_name (Static expr) expressions))"

fun assign_all ::
  "env \<Rightarrow> pyval \<Rightarrow> (string \<times> compiled) list \<Rightarrow> ConversationState \<Rightarrow> outcome" where
  "assign_all E state_dict [] state = Returned state"
| "assign_all E state_dict ((var_name, expr) # rest) state =
     (case expr of
        Expression p \<Rightarrow>
          (case jmespath_search E p state_dict of
             Inl e \<Rightarrow> Raised e state
           | Inr v \<Rightarrow>
               assign_all E state_dict rest
                 (state\<lparr>variables := AList.update var_name v (variables state)\<rparr>))
      | Static v \<Rightarrow>
          assign_all E state_dict rest
            (state\<lparr>variables := AList.update var_name v (variables state)\<rparr>))"

definition setvar_fn ::
  "env \<Rightarrow> Node \<Rightarrow> (string \<times> compiled) list \<Rightarrow> ConversationState \<Rightarrow> outcome" where
  "setvar_fn E node expressions state =
     (case assign_all E (model_dump state) expressions state of
        Raised e s \<Rightarrow> Raised e s
      | Returned s \<Rightarrow> Returned (s\<lparr>last_node := Some (node_id node)\<rparr>))"

text \<open>
  \<open>NodeRegistry.create(node)\<close> looks the class up (all five types are registered) and runs
  its \<open>validate\<close>; \<open>to_graph_fn()\<close> then builds the executor, which for If and SetVar
  compiles the condition or the expressions first.
\<close>

definition has_key :: "Node \<Rightarrow> string \<Rightarrow> bool" where
  "has_key node k = (map_of (config node) k \<noteq> None)"

definition validate :: "Node \<Rightarrow> error option" where
  "validate node =
     (case node_type node of
        PROMPT \<Rightarrow> if has_key node ''text'' then None else Some (MissingConfig (node_id node))
      | OUTPUT \<Rightarrow> if has_key node ''text'' then None else Some (MissingConfig (node_id node))
      | LLM \<Rightarrow>
          if has_key node ''prompt'' \<and> has_key node ''extract''
          then (case map_of (config node) ''extract'' of
                  Some (VList _) \<Rightarrow> None
                | _ \<Rightarrow> Some (ExtractNotList (node_id node)))
          else Some (MissingConfig (node_id node))
      | IF \<Rightarrow>
          if has_key node ''condition'' \<and> has_key node ''true_target''
             \<and> has_key node ''false_target''
          then None else Some (MissingConfig (node_id node))
      | SET_VAR \<Rightarrow>
          if has_key node ''variables''
          then (case map_of (config node) ''variables'' of
                  Some (VDict _) \<Rightarrow> None
                | _ \<Rightarrow> Some (VariablesNotDict (node_id node)))
          else Some (MissingConfig (node_id node)))"

definition to_graph_fn :: "env \<Rightarrow> Node \<Rightarrow> error + (ConversationState \<Rightarrow> outcome)" where
  "to_graph_fn E node =
     (case node_type node of
        PROMPT \<Rightarrow> Inr (prompt_fn E node)
      | LLM \<Rightarrow> Inr (llm_fn E node)
      | OUTPUT \<Rightarrow> Inr (output_fn E node)
      | IF \<Rightarrow>
          (case map_of (config node) ''condition'' of
             None \<Rightarrow> Inl (KeyError ''condition'')
           | Some cv \<Rightarrow>
               (case cv of
                  VStr c \<Rightarrow>
                    (case create_router E c of
                       Inl e \<Rightarrow> Inl e
                     | Inr router \<Rightarrow> Inr (if_fn node router))
                | _ \<Rightarrow> Inl NotAString))
      | SET_VAR \<Rightarrow>
          (case map_of (config node) ''variables'' of
             Some (VDict items) \<Rightarrow>
               (case compile_expressions E items [] of
                  Inl e \<Rightarrow> Inl e
                | Inr expressions \<Rightarrow> Inr (setvar_fn E node expressions))
           | _ \<Rightarrow> Inl (VariablesNotDict (node_id node))))"

definition create_graph_fn :: "env \<Rightarrow> Node \<Rightarrow> error + (ConversationState \<Rightarrow> outcome)" where
  \<comment> \<open>\<open>NodeRegistry.create(node).to_graph_fn()\<close>\<close>
  "create_graph_fn E node =
     (case validate node of
        Some e \<Rightarrow> Inl e
      | None \<Rightarrow> to_graph_fn E node)"

section \<open>core/engine.py: the step driver\<close>

definition truthy :: "string option \<Rightarrow> bool" where
  \<comment> \<open>\<open>if x:\<close> for an optional string: neither \<open>None\<close> nor empty\<close>
  "truthy x = (case x of None \<Rightarrow> False | Some s \<Rightarrow> s \<noteq> [])"

definition find_node_by_id :: "Workflow \<Rightarrow> string \<Rightarrow> Node option" where
  "find_node_by_id workflow nid = find (\<lambda>node. node_id node = nid) (nodes workflow)"

definition find_next_node_from_edges :: "Workflow \<Rightarrow> string \<Rightarrow> Node option" where
  "find_next_node_from_edges workflow current_node_id =
     (case edges workflow of
        None \<Rightarrow> None
      | Some es \<Rightarrow>
          if es = [] then None
          else (case find (\<lambda>edge. source edge = current_node_id) es of
                  None \<Rightarrow> None
                | Some edge \<Rightarrow> find_node_by_id workflow (target edge)))"

definition find_next_node_from_next_prop :: "Workflow \<Rightarrow> string \<Rightarrow> Node option" where
  "find_next_node_from_next_prop workflow current_node_id =
     (case find_node_by_id workflow current_node_id of
        None \<Rightarrow> None
      | Some current_node \<Rightarrow>
          (case node_next current_node of
             None \<Rightarrow> None
           | Some nx \<Rightarrow> if nx \<noteq> [] then find_node_by_id workflow nx else None))"

definition has_next_node :: "Workflow \<Rightarrow> Node \<Rightarrow> bool" where
  "has_next_node workflow node =
     (case edges workflow of
        None \<Rightarrow> truthy (node_next node)
      | Some es \<Rightarrow>
          if es = [] then truthy (node_next node)
          else list_ex (\<lambda>edge. source edge = node_id node) es)"

definition find_successor :: "Workflow \<Rightarrow> string \<Rightarrow> Node option" where
  \<comment> \<open>the lookup that \<open>step\<close> repeats: the edges first, the \<open>next\<close> property when they give
      no node\<close>
  "find_successor workflow current_node_id =
     (case find_next_node_from_edges workflow current_node_id of
        Some node \<Rightarrow> Some node
      | None \<Rightarrow> find_next_node_from_next_prop workflow current_node_id)"

definition resolve_next :: "Workflow \<Rightarrow> Node \<Rightarrow> ConversationState \<Rightarrow> Node option" where
  \<comment> \<open>lines 324 to 333 of \<open>step\<close>; \<open>first\<close> is \<open>self.workflow.nodes[0]\<close>\<close>
  "resolve_next workflow first state =
     (case last_node state of
        None \<Rightarrow> Some first
      | Some ln \<Rightarrow> if ln = [] then Some first else find_successor workflow ln)"

definition run_node :: "env \<Rightarrow> Workflow \<Rightarrow> Node \<Rightarrow> ConversationState \<Rightarrow> outcome" where
  \<comment> \<open>build the executor of a chained node, run it on the current result, then set
      \<open>last_node\<close> and \<open>done\<close>\<close>
  "run_node E workflow node state =
     (case create_graph_fn E node of
        Inl e \<Rightarrow> Raised e state
      | Inr fn \<Rightarrow>
          (case fn state of
             Raised e s \<Rightarrow> Raised e s
           | Returned result \<Rightarrow>
               Returned (result\<lparr>last_node := Some (node_id node),
                          is_done := \<not> has_next_node workflow node\<rparr>)))"

definition chain_output :: "env \<Rightarrow> Workflow \<Rightarrow> Node \<Rightarrow> ConversationState \<Rightarrow> outcome" where
  \<comment> \<open>lines 375 to 389 and 393 to 407: run the successor only if it is an Output node\<close>
  "chain_output E workflow node result =
     (case find_successor workflow (node_id node) of
        None \<Rightarrow> Returned result
      | Some next_next_node \<Rightarrow>
          if node_type next_next_node = OUTPUT then run_node E workflow next_next_node result
          else Returned result)"

definition chain_llm :: "env \<Rightarrow> Workflow \<Rightarrow> Node \<Rightarrow> ConversationState \<Rightarrow> outcome" where
  \<comment> \<open>lines 357 to 389: after a Prompt node, run the successor only if it is an LLM node\<close>
  "chain_llm E workflow node result =
     (case find_successor workflow (node_id node) of
        None \<Rightarrow> Returned result
      | Some next_next_node \<Rightarrow>
          if node_type next_next_node = LLM then
            (case run_node E workflow next_next_node result of
               Raised e s \<Rightarrow> Raised e s
             | Returned result2 \<Rightarrow>
                 if \<not> is_done result2 then chain_output E workflow next_next_node result2
                 else Returned result2)
          else Returned result)"

definition step :: "env \<Rightarrow> Workflow \<Rightarrow> ConversationState \<Rightarrow> string \<Rightarrow> outcome" where
  "step E workflow state user_text =
     (case nodes workflow of
        [] \<Rightarrow> Returned state
      | first # _ \<Rightarrow>
          (case resolve_next workflow first state of
             None \<Rightarrow> Returned (state\<lparr>is_done := True\<rparr>)
           | Some next_node \<Rightarrow>
               (case create_graph_fn E next_node of
                  Inl e \<Rightarrow> Raised e state
                | Inr fn \<Rightarrow>
                    (case fn (state\<lparr>messages := messages state @
                                 [new_message ''user'' user_text]\<rparr>) of
                       Raised e s \<Rightarrow> Raised e s
                     | Returned r \<Rightarrow>
                         (let result = r\<lparr>last_node := Some (node_id next_node),
                                         is_done := \<not> has_next_node workflow next_node\<rparr> in
                          if node_type next_node = PROMPT then chain_llm E workflow next_node result
                          else if node_type next_node = LLM \<and> \<not> is_done result
                          then chain_output E workflow next_node result
                          else Returned result)))))"

definition start_successor :: "Workflow \<Rightarrow> Node \<Rightarrow> Node option" where
  \<comment> \<open>the search written out in \<open>start\<close>: the first edge leaving the node, else the node's
      own \<open>next\<close>\<close>
  "start_successor workflow node =
     (case find_next_node_from_edges workflow (node_id node) of
        Some n \<Rightarrow> Some n
      | None \<Rightarrow>
          (case node_next node of
             None \<Rightarrow> None
           | Some nx \<Rightarrow> if nx \<noteq> [] then find_node_by_id workflow nx else None))"

definition forget :: "outcome \<Rightarrow> error + ConversationState" where
  \<comment> \<open>\<open>start\<close> builds its own state: when it raises, no caller holds the object\<close>
  "forget out = (case out of Returned s \<Rightarrow> Inr s | Raised e s \<Rightarrow> Inl e)"

definition start :: "env \<Rightarrow> Workflow \<Rightarrow> string option \<Rightarrow> error + ConversationState" where
  "start E workflow input_text =
     (case nodes workflow of
        [] \<Rightarrow> Inr empty_state
      | first_node # _ \<Rightarrow>
          (let text = (case input_text of None \<Rightarrow> [] | Some t \<Rightarrow> t);
               conv_state = \<lparr>messages = (if text \<noteq> [] then [new_message ''user'' text] else []),
                             variables = wf_variables workflow,
                             last_node = None,
                             is_done = False\<rparr> in
           case create_graph_fn E first_node of
             Inl e \<Rightarrow> Inl e
           | Inr fn \<Rightarrow>
               (case fn conv_state of
                  Raised e s \<Rightarrow> Inl e
                | Returned r \<Rightarrow>
                    (let result = r\<lparr>last_node := Some (node_id first_node), is_done := False\<rparr> in
                     if text \<noteq> [] \<and> \<not> is_done result then
                       (case start_successor workflow first_node of
                          None \<Rightarrow> Inr result
                        | Some next_node \<Rightarrow>
                            if node_type next_node = LLM then
                              (case run_node E workflow next_node
                                      (result\<lparr>messages := messages result @
                                          [new_message ''user'' text]\<rparr>) of
                                 Raised e s \<Rightarrow> Inl e
                               | Returned result2 \<Rightarrow>
                                   if \<not> is_done result2 then
                                     (case start_successor workflow next_node of
                                        None \<Rightarrow> Inr result2
                                      | Some next_next_node \<Rightarrow>
                                          if node_type next_next_node = OUTPUT
                                          then forget (run_node E workflow next_next_node result2)
                                          else Inr result2)
                                   else Inr result2)
                            else Inr result)
                     else Inr result))))"

section \<open>Concrete workflows\<close>

lemmas node_defs =
  create_graph_fn_def validate_def has_key_def to_graph_fn_def prompt_fn_def output_fn_def
  llm_fn_def if_fn_def setvar_fn_def store_last_user_def new_message_def
  last_user_message_def dict_update_def py_str_def replace_def strip_ws_def py_isspace_def

lemmas engine_defs =
  start_def step_def resolve_next_def find_successor_def find_next_node_from_edges_def
  find_next_node_from_next_prop_def find_node_by_id_def has_next_node_def truthy_def
  run_node_def chain_llm_def chain_output_def start_successor_def forget_def empty_state_def

definition mk_node :: "string \<Rightarrow> NodeType \<Rightarrow> (string \<times> pyval) list \<Rightarrow> string option \<Rightarrow> Node" where
  \<comment> \<open>\<open>Node(id=..., type=..., config=..., next=...)\<close>\<close>
  "mk_node i t c n = \<lparr>node_id = i, node_type = t, config = c, node_next = n\<rparr>"

definition mk_workflow :: "Node list \<Rightarrow> Edge list option \<Rightarrow> Workflow" where
  "mk_workflow ns es =
     \<lparr>wf_id = ''w'', wf_name = ''example'', version = 1, wf_variables = [],
      nodes = ns, edges = es\<rparr>"

definition farewell_only :: Workflow where
  \<comment> \<open>one Output node and nothing after it\<close>
  "farewell_only = mk_workflow [mk_node ''bye'' OUTPUT [(''text'', VStr ''Goodbye!'')] None] None"

definition ask_and_reply_loop :: Workflow where
  \<comment> \<open>a Prompt node, then an Output node whose \<open>next\<close> leads back to the Prompt node\<close>
  "ask_and_reply_loop = mk_workflow
     [mk_node ''ask'' PROMPT [(''text'', VStr ''Name?'')] (Some ''reply''),
      mk_node ''reply'' OUTPUT [(''text'', VStr ''Thanks, {{name}}!'')] (Some ''ask'')] None"

definition mixed_links :: Workflow where
  \<comment> \<open>node \<open>a\<close> is linked to \<open>b\<close> by its \<open>next\<close> property only, while the edge list holds an
      edge that leaves \<open>b\<close>\<close>
  "mixed_links = mk_workflow
     [mk_node ''a'' SET_VAR [(''variables'', VDict [(''seen'', VBool True)])] (Some ''b''),
      mk_node ''b'' PROMPT [(''text'', VStr ''More?'')] None]
     (Some [\<lparr>edge_id = ''e1'', source = ''b'', target = ''b'', condition = None\<rparr>])"

section \<open>The driver's completion flag\<close>

text \<open>
  With no input, \<open>start\<close> builds the initial state, runs the executor of the first node and
  no other, and overwrites \<open>last_node\<close> and \<open>done\<close>: the state it returns is never done.
  A \<open>step\<close> that resolves no node sets \<open>done\<close> and changes nothing else.
\<close>

lemma start_without_input:
  "start E workflow None =
     (case nodes workflow of
        [] \<Rightarrow> Inr empty_state
      | first_node # _ \<Rightarrow>
          (case create_graph_fn E first_node of
             Inl e \<Rightarrow> Inl e
           | Inr fn \<Rightarrow>
               (case fn \<lparr>messages = [], variables = wf_variables workflow,
                         last_node = None, is_done = False\<rparr> of
                  Raised e s \<Rightarrow> Inl e
                | Returned r \<Rightarrow>
                    Inr (r\<lparr>last_node := Some (node_id first_node), is_done := False\<rparr>))))"
  by (simp add: start_def split: list.splits sum.splits outcome.splits)

lemma start_without_input_not_done:
  "start E workflow None = Inr state \<Longrightarrow> \<not> is_done state"
  by (auto simp: start_without_input empty_state_def
        split: list.splits sum.splits outcome.splits)

lemma step_no_successor:
  "nodes workflow = first # rest \<Longrightarrow> resolve_next workflow first state = None \<Longrightarrow>
   step E workflow state user_text = Returned (state\<lparr>is_done := True\<rparr>)"
  by (simp add: step_def)

text \<open>
  Claim C1. \<open>start()\<close> with no input on a workflow whose only node is an Output node runs
  that node, which appends its message and sets \<open>done\<close>; \<open>start\<close> then assigns
  \<open>result.done = False\<close>, so the returned state is not done although the first node is an
  Output node and has no successor.
\<close>

theorem start_output_first_returns_not_done:
  "start E farewell_only None =
     Inr \<lparr>messages = [new_message ''assistant'' ''Goodbye!''], variables = [],
          last_node = Some ''bye'', is_done = False\<rparr>"
  by (simp add: engine_defs node_defs farewell_only_def mk_workflow_def mk_node_def)

text \<open>
  Claim C2. The Output executor returns a state that is done, but when \<open>step\<close> runs an
  Output node for which a successor is declared, \<open>step\<close> overwrites the flag with
  \<open>not _has_next_node(node)\<close> and the state returned to the caller is not done.
\<close>

theorem step_output_with_successor_returns_not_done:
  "output_fn E (mk_node ''reply'' OUTPUT [(''text'', VStr ''Thanks, {{name}}!'')] (Some ''ask''))
     \<lparr>messages = [new_message ''assistant'' ''Name?'', new_message ''user'' ''Alice''],
      variables = [], last_node = Some ''ask'', is_done = False\<rparr>
   = Returned
     \<lparr>messages = [new_message ''assistant'' ''Name?'', new_message ''user'' ''Alice'',
                  new_message ''assistant'' ''Thanks, Alice!''],
      variables = [(''name'', VStr ''Alice'')], last_node = Some ''reply'', is_done = True\<rparr>
   \<and> start E ask_and_reply_loop None =
     Inr \<lparr>messages = [new_message ''assistant'' ''Name?''], variables = [],
          last_node = Some ''ask'', is_done = False\<rparr>
   \<and> step E ask_and_reply_loop
       \<lparr>messages = [new_message ''assistant'' ''Name?''], variables = [],
        last_node = Some ''ask'', is_done = False\<rparr> ''Alice''
   = Returned
     \<lparr>messages = [new_message ''assistant'' ''Name?'', new_message ''user'' ''Alice'',
                  new_message ''assistant'' ''Thanks, Alice!''],
      variables = [(''name'', VStr ''Alice'')], last_node = Some ''reply'', is_done = False\<rparr>"
  by (simp add: engine_defs node_defs ask_and_reply_loop_def mk_workflow_def mk_node_def)

text \<open>
  Claim C3. In \<open>mixed_links\<close> the node \<open>a\<close> has no outgoing edge and its \<open>next\<close> property
  names \<open>b\<close>. The lookup that \<open>step\<close> uses finds \<open>b\<close> as the successor of \<open>a\<close>, yet
  \<open>_has_next_node\<close> looks at the edge list alone when it is not empty, and the step that
  runs \<open>a\<close> (a SetVar node, so nothing is chained) returns a state that is done.
\<close>

theorem step_done_although_next_pointer_set:
  "step E mixed_links empty_state ''hi'' =
     Returned \<lparr>messages = [new_message ''user'' ''hi''], variables = [(''seen'', VBool True)],
               last_node = Some ''a'', is_done = True\<rparr>
   \<and> find_successor mixed_links ''a'' = Some (mk_node ''b'' PROMPT [(''text'', VStr ''More?'')] None)"
  by (simp add: engine_defs node_defs mixed_links_def mk_workflow_def mk_node_def model_dump_def)

text \<open>
  Claim C4. The state returned above is done and was reached by a \<open>step\<close> from the initial
  state. A further \<open>step\<close> on it resolves \<open>b\<close> through the \<open>next\<close> property of \<open>a\<close>, appends
  the user message, runs \<open>b\<close>, which appends a message and writes a variable, and returns a
  state that is no longer done.
\<close>

theorem step_after_done_runs_next_node:
  "step E mixed_links empty_state ''hi'' =
     Returned \<lparr>messages = [new_message ''user'' ''hi''], variables = [(''seen'', VBool True)],
               last_node = Some ''a'', is_done = True\<rparr>
   \<and> step E mixed_links
     \<lparr>messages = [new_message ''user'' ''hi''], variables = [(''seen'', VBool True)],
      last_node = Some ''a'', is_done = True\<rparr> ''again''
   = Returned
     \<lparr>messages = [new_message ''user'' ''hi'', new_message ''user'' ''again'',
                  new_message ''assistant'' ''More?''],
      variables = [(''seen'', VBool True), (''user_input'', VStr ''again'')],
      last_node = Some ''b'', is_done = False\<rparr>"
  by (simp add: engine_defs node_defs mixed_links_def mk_workflow_def mk_node_def model_dump_def)

section \<open>What one call of \<open>step\<close> runs\<close>


lemma step_first_raises:
  assumes "nodes workflow = first # rest"
      and "resolve_next workflow first state = Some node"
      and "create_graph_fn E node = Inr fn"
      and "fn (state\<lparr>messages := messages state @ [new_message ''user'' user_text]\<rparr>) = Raised e s"
  shows "step E workflow state user_text = Raised e s"
  using assms by (simp add: step_def)

lemma last_user_message_appended:
  "last_user_message (msgs @ [new_message ''user'' user_text]) = Some (new_message ''user'' user_text)"
  by (simp add: last_user_message_def new_message_def)

lemma store_last_user_messages: "messages (store_last_user k state) = messages state"
  by (simp add: store_last_user_def split: list.splits)

lemma assign_all_raised_messages:
  "assign_all E sd ex state = Raised e s \<Longrightarrow> messages s = messages state"
  by (induction E sd ex state rule: assign_all.induct)
     (auto split: compiled.splits sum.splits)

lemma executor_raised_messages:
  assumes "create_graph_fn E node = Inr fn" and "fn state = Raised e s"
  shows "messages s = messages state"
proof (cases "node_type node")
  case PROMPT
  with assms show ?thesis
    by (auto simp: create_graph_fn_def to_graph_fn_def prompt_fn_def Let_def
          store_last_user_messages split: option.splits pyval.splits)
next
  case LLM
  with assms show ?thesis
    by (auto simp: create_graph_fn_def to_graph_fn_def llm_fn_def Let_def
          split: option.splits pyval.splits sum.splits)
next
  case IF
  with assms show ?thesis
    by (auto simp: create_graph_fn_def to_graph_fn_def if_fn_def Let_def
          split: option.splits pyval.splits sum.splits)
next
  case SET_VAR
  with assms show ?thesis
    by (auto simp: create_graph_fn_def to_graph_fn_def setvar_fn_def
          split: option.splits pyval.splits sum.splits outcome.splits
          dest: assign_all_raised_messages)
next
  case OUTPUT
  with assms show ?thesis
    by (auto simp: create_graph_fn_def to_graph_fn_def output_fn_def Let_def
          store_last_user_messages split: option.splits pyval.splits)
qed












definition guarded :: Workflow where
  \<comment> \<open>an If node whose condition is the JMESPath expression \<open>last_node\<close>, not a boolean\<close>
  "guarded = mk_workflow
     [mk_node ''check'' IF
        [(''condition'', VStr ''last_node''),
         (''true_target'', VStr ''yes''), (''false_target'', VStr ''no'')] None] None"



text \<open>
  Claim C10, as amended. When \<open>step\<close> has resolved a node and built its executor, it appends
  the user message to the caller's state and only then runs the executor. If the executor
  raises (a failure of the text-generation call in the LLM executor, a condition that does
  not evaluate to a boolean in an If node), \<open>step\<close> raises the same error, and the caller's
  state is left as the executor left it, with \<open>user_text\<close> appended as a user message at the
  end of its messages. The LLM executor's search for a user message always succeeds there:
  it finds the message just appended.
\<close>

theorem step_raise_keeps_appended_user_message:
  assumes "nodes workflow = first # rest"
      and "resolve_next workflow first state = Some node"
      and "create_graph_fn E node = Inr fn"
      and "fn (state\<lparr>messages := messages state @ [new_message ''user'' user_text]\<rparr>) = Raised e s"
  shows "step E workflow state user_text = Raised e s
         \<and> messages s = messages state @ [new_message ''user'' user_text]
         \<and> last_user_message (messages s) = Some (new_message ''user'' user_text)"
proof (intro conjI)
  from assms show "step E workflow state user_text = Raised e s"
    by (rule step_first_raises)
  from executor_raised_messages [OF assms(3) assms(4)]
  show m: "messages s = messages state @ [new_message ''user'' user_text]" by simp
  show "last_user_message (messages s) = Some (new_message ''user'' user_text)"
    by (simp only: m last_user_message_appended)
qed

theorem step_raise_keeps_appended_user_message_witness:
  "step demo_env guarded empty_state ''hi'' =
     Raised (ConditionNotBoolean ''last_node'')
       \<lparr>messages = [new_message ''user'' ''hi''], variables = [], last_node = None,
        is_done = False\<rparr>"
proof -
  let ?node = "mk_node ''check'' IF
        [(''condition'', VStr ''last_node''),
         (''true_target'', VStr ''yes''), (''false_target'', VStr ''no'')] None"
  let ?fn = "if_fn ?node (evaluate_expression demo_env ''last_node'' (ParsedResult ''last_node''))"
  let ?s = "\<lparr>messages = [new_message ''user'' ''hi''], variables = [], last_node = None,
        is_done = False\<rparr>"
  have h1: "nodes guarded = ?node # []"
    by (simp add: guarded_def mk_workflow_def)
  have h2: "resolve_next guarded ?node empty_state = Some ?node"
    by (simp add: resolve_next_def empty_state_def)
  have h3: "create_graph_fn demo_env ?node = Inr ?fn"
    by (simp add: node_defs mk_node_def create_router_def demo_env_def)
  have h4: "?fn (empty_state\<lparr>messages := messages empty_state @ [new_message ''user'' ''hi'']\<rparr>)
              = Raised (ConditionNotBoolean ''last_node'') ?s"
    by (simp add: if_fn_def evaluate_expression_def demo_env_def demo_search_def model_dump_def
          dict_get_def dump_option_def empty_state_def)
  from step_raise_keeps_appended_user_message [OF h1 h2 h3 h4] show ?thesis by simp
qed

section \<open>The LLM executor\<close>

lemma map_of_dict_update:
  "distinct (map fst other) \<Longrightarrow>
   map_of (dict_update d other) k = (case map_of other k of Some v \<Rightarrow> Some v | None \<Rightarrow> map_of d k)"
proof (induction other arbitrary: d)
  case Nil
  show ?case by (simp add: dict_update_def)
next
  case (Cons x xs)
  from Cons.prems have dx: "distinct (map fst xs)" and nx: "fst x \<notin> fst ` set xs" by auto
  have "dict_update d (x # xs) = dict_update (AList.update (fst x) (snd x) d) xs"
    by (simp add: dict_update_def)
  with Cons.IH [OF dx, of "AList.update (fst x) (snd x) d"]
  have "map_of (dict_update d (x # xs)) k =
          (case map_of xs k of Some v \<Rightarrow> Some v
           | None \<Rightarrow> map_of (AList.update (fst x) (snd x) d) k)" by simp
  moreover from nx have "fst x = k \<Longrightarrow> map_of xs k = None"
    by (simp add: map_of_eq_None_iff)
  ultimately show ?case
    by (cases x) (auto simp: update_conv' split: option.splits)
qed

lemma extract_fields_strings:
  "distinct (map fst acc) \<Longrightarrow>
   \<exists>ex. extract_fields (map VStr names) d acc = Inr ex \<and> distinct (map fst ex)
      \<and> (\<forall>k. map_of ex k =
             (if k \<in> set names \<and> map_of d k \<noteq> None then map_of d k else map_of acc k))"
proof (induction names arbitrary: acc)
  case Nil
  then show ?case by simp
next
  case (Cons n names)
  show ?case
  proof (cases "map_of d n")
    case None
    with Cons.IH [OF Cons.prems] show ?thesis by auto
  next
    case (Some v)
    from Cons.prems have "distinct (map fst (AList.update n v acc))"
      by (rule distinct_update)
    from Cons.IH [OF this] Some show ?thesis
      by (auto simp: update_conv')
  qed
qed

definition llm_answer :: "env \<Rightarrow> Node \<Rightarrow> ConversationState \<Rightarrow> (error + pyval) option" where
  \<comment> \<open>what the text-generation call of \<open>llm_fn\<close> gives; \<open>None\<close> when \<open>llm_fn\<close> does not reach
      the call\<close>
  "llm_answer E node state =
     (case last_user_message (messages state) of
        None \<Rightarrow> None
      | Some user_message \<Rightarrow>
          (case map_of (config node) ''prompt'' of
             Some (VStr p) \<Rightarrow>
               Some (llm_complete E
                 (render_template E p
                    (AList.update ''user_input'' (VStr (content user_message)) (variables state)))
                 system_instruction True)
           | _ \<Rightarrow> None))"

definition is_dict :: "pyval \<Rightarrow> bool" where
  \<comment> \<open>\<open>isinstance(result, dict)\<close>\<close>
  "is_dict v = (case v of VDict _ \<Rightarrow> True | _ \<Rightarrow> False)"

definition response_is_text :: "string list \<Rightarrow> (string \<times> pyval) list \<Rightarrow> bool" where
  \<comment> \<open>the extracted \<open>response\<close>, when there is one, is a string\<close>
  "response_is_text names d =
     (if ''response'' \<in> set names
      then (case map_of d ''response'' of None \<Rightarrow> True | Some v \<Rightarrow> (case v of VStr _ \<Rightarrow> True | _ \<Rightarrow> False))
      else True)"

definition response_text :: "env \<Rightarrow> string list \<Rightarrow> (string \<times> pyval) list \<Rightarrow> string" where
  \<comment> \<open>\<open>extracted.get("response", str(result))\<close>\<close>
  "response_text E names d =
     (if ''response'' \<in> set names
      then (case map_of d ''response'' of
              None \<Rightarrow> py_str E (VDict d)
            | Some v \<Rightarrow> (case v of VStr s \<Rightarrow> s | _ \<Rightarrow> py_str E (VDict d)))
      else py_str E (VDict d))"

lemma llm_fn_no_user:
  "last_user_message (messages state) = None \<Longrightarrow> llm_fn E node state = Raised NoUserMessage state"
  by (simp add: llm_fn_def)

lemma llm_fn_collaborator_raises:
  "llm_answer E node state = Some (Inl e) \<Longrightarrow> llm_fn E node state = Raised e state"
  by (auto simp: llm_answer_def llm_fn_def split: option.splits pyval.splits)

lemma llm_fn_not_a_dict:
  "llm_answer E node state = Some (Inr result) \<Longrightarrow> \<not> is_dict result \<Longrightarrow>
   llm_fn E node state = Returned (state\<lparr>last_node := Some (node_id node)\<rparr>)"
  by (auto simp: llm_answer_def llm_fn_def is_dict_def split: option.splits pyval.splits)

lemma llm_fn_dict:
  assumes a: "llm_answer E node state = Some (Inr (VDict d))"
      and x: "map_of (config node) ''extract'' = Some (VList (map VStr names))"
      and t: "response_is_text names d"
  shows "\<exists>state'. llm_fn E node state = Returned state'
           \<and> (\<forall>k. map_of (variables state') k =
                  (if k \<in> set names \<and> map_of d k \<noteq> None then map_of d k
                   else map_of (variables state) k))
           \<and> messages state' = messages state @ [new_message ''assistant'' (response_text E names d)]
           \<and> last_node state' = Some (node_id node) \<and> is_done state' = is_done state"
proof -
  from extract_fields_strings [of "[]" names d]
  obtain ex where ex: "extract_fields (map VStr names) d [] = Inr ex" "distinct (map fst ex)"
      "\<And>k. map_of ex k = (if k \<in> set names \<and> map_of d k \<noteq> None then map_of d k else None)"
    by auto
  have vars: "map_of (dict_update (variables state) ex) k =
      (if k \<in> set names \<and> map_of d k \<noteq> None then map_of d k else map_of (variables state) k)" for k
    by (simp add: map_of_dict_update [OF ex(2)] ex(3) split: option.splits)
  from a obtain um p where um: "last_user_message (messages state) = Some um"
      and p: "map_of (config node) ''prompt'' = Some (VStr p)"
      and c: "llm_complete E (render_template E p
                 (AList.update ''user_input'' (VStr (content um)) (variables state)))
                 system_instruction True = Inr (VDict d)"
    by (auto simp: llm_answer_def split: option.splits pyval.splits)
  show ?thesis
  proof (cases "map_of ex ''response''")
    case None
    then have "response_text E names d = py_str E (VDict d)"
      using ex(3) [of "''response''"] by (auto simp: response_text_def split: if_splits option.splits)
    with None um p c x ex(1) vars show ?thesis
      by (simp add: llm_fn_def)
  next
    case (Some v)
    with ex(3) [of "''response''"] have r: "''response'' \<in> set names" "map_of d ''response'' = Some v"
      by (auto split: if_splits)
    with t obtain s where s: "v = VStr s"
      by (auto simp: response_is_text_def split: pyval.splits)
    with r have "response_text E names d = s" by (simp add: response_text_def)
    with Some s um p c x ex(1) vars show ?thesis
      by (simp add: llm_fn_def)
  qed
qed

definition chat_llm :: Node where
  "chat_llm = mk_node ''extract'' LLM
     [(''prompt'', VStr ''The user said: {{user_input}}''),
      (''extract'', VList [VStr ''name'', VStr ''response''])] None"

definition said_alice :: ConversationState where
  "said_alice = \<lparr>messages = [new_message ''user'' ''I am Alice''], variables = [],
                  last_node = None, is_done = False\<rparr>"

definition failing_env :: env where
  \<comment> \<open>the text-generation backend raises\<close>
  "failing_env = demo_env\<lparr>llm_complete := (\<lambda>prompt system json_mode.
      Inl (External ''backend unavailable''))\<rparr>"

definition text_env :: env where
  \<comment> \<open>the text-generation backend answers with a text where an object was asked for\<close>
  "text_env = demo_env\<lparr>llm_complete := (\<lambda>prompt system json_mode.
      Inr (VStr ''Sorry, no JSON today.''))\<rparr>"

definition initial_state :: "Workflow \<Rightarrow> string option \<Rightarrow> ConversationState" where
  \<comment> \<open>the state that \<open>start\<close> builds before it runs the first node\<close>
  "initial_state workflow input_text =
     (let text = (case input_text of None \<Rightarrow> [] | Some t \<Rightarrow> t) in
      \<lparr>messages = (if text \<noteq> [] then [new_message ''user'' text] else []),
       variables = wf_variables workflow, last_node = None, is_done = False\<rparr>)"

definition ask_then_llm :: Workflow where
  \<comment> \<open>a Prompt node followed by the LLM node\<close>
  "ask_then_llm = mk_workflow
     [mk_node ''ask'' PROMPT [(''text'', VStr ''Name?'')] (Some ''extract''), chat_llm] None"

lemma create_llm_fn:
  "node_type node = LLM \<Longrightarrow> validate node = None \<Longrightarrow> create_graph_fn E node = Inr (llm_fn E node)"
  by (simp add: create_graph_fn_def to_graph_fn_def)

lemma step_chained_llm_raises:
  assumes "nodes workflow = first # rest"
      and "resolve_next workflow first state = Some pnode"
      and "node_type pnode = PROMPT"
      and "create_graph_fn E pnode = Inr pfn"
      and "pfn (state\<lparr>messages := messages state @ [new_message ''user'' user_text]\<rparr>) = Returned pr"
      and "find_successor workflow (node_id pnode) = Some node"
      and "node_type node = LLM" and "validate node = None"
      and "llm_fn E node (pr\<lparr>last_node := Some (node_id pnode),
                              is_done := \<not> has_next_node workflow pnode\<rparr>) = Raised e s"
  shows "step E workflow state user_text = Raised e s"
  using assms by (simp add: step_def chain_llm_def run_node_def create_llm_fn)

lemma start_first_llm_raises:
  assumes "nodes workflow = node # rest"
      and "node_type node = LLM" and "validate node = None"
      and "llm_fn E node (initial_state workflow input_text) = Raised e s"
  shows "start E workflow input_text = Inl e"
  using assms by (simp add: start_def initial_state_def create_llm_fn Let_def)

lemma start_chained_llm_raises:
  assumes "nodes workflow = first # rest"
      and "input_text = Some text" and "text \<noteq> []"
      and "create_graph_fn E first = Inr ffn"
      and "ffn (initial_state workflow input_text) = Returned fr"
      and "start_successor workflow first = Some node"
      and "node_type node = LLM" and "validate node = None"
      and "llm_fn E node (fr\<lparr>last_node := Some (node_id first), is_done := False,
                              messages := messages fr @ [new_message ''user'' text]\<rparr>) = Raised e s"
  shows "start E workflow input_text = Inl e"
  using assms by (simp add: start_def initial_state_def run_node_def create_llm_fn Let_def)

text \<open>
  Claim C6, as amended. The LLM executor raises when the state holds no user message. It
  passes on any error that the text-generation call raises. Whatever the LLM executor
  raises reaches the caller: \<open>step\<close> raises it when the LLM node is the node it resolves
  and when it is chained after a Prompt node, and \<open>start\<close> raises it when the LLM node is
  the first node and when it is chained after the first node. When the call returns a value
  that is not a dictionary, the executor raises nothing: it sets \<open>last_node\<close> and changes
  nothing else. When the call returns a dictionary (with \<open>extract\<close> a list of names and the
  extracted \<open>response\<close>, if any, a string), it returns a state in which every name of
  \<open>extract\<close> that is a key of the result holds the result's value, every other variable is
  unchanged, and exactly one assistant message is appended: the extracted \<open>response\<close>, else
  \<open>str\<close> of the result.
\<close>

theorem llm_fn_outcomes:
  "(last_user_message (messages state) = None
      \<longrightarrow> llm_fn E node state = Raised NoUserMessage state)
   \<and> (llm_answer E node state = Some (Inl e)
      \<longrightarrow> llm_fn E node state = Raised e state)
   \<and> (llm_answer E node state = Some (Inr result) \<and> \<not> is_dict result
      \<longrightarrow> llm_fn E node state = Returned (state\<lparr>last_node := Some (node_id node)\<rparr>))
   \<and> (llm_answer E node state = Some (Inr (VDict d))
        \<and> map_of (config node) ''extract'' = Some (VList (map VStr names))
        \<and> response_is_text names d
      \<longrightarrow> (\<exists>state'. llm_fn E node state = Returned state'
             \<and> (\<forall>k. map_of (variables state') k =
                    (if k \<in> set names \<and> map_of d k \<noteq> None then map_of d k
                     else map_of (variables state) k))
             \<and> messages state' =
                 messages state @ [new_message ''assistant'' (response_text E names d)]
             \<and> last_node state' = Some (node_id node) \<and> is_done state' = is_done state))
   \<and> (nodes workflow = first # rest
        \<and> resolve_next workflow first state = Some node
        \<and> node_type node = LLM \<and> validate node = None
        \<and> llm_fn E node (state\<lparr>messages := messages state @ [new_message ''user'' user_text]\<rparr>)
            = Raised e s
      \<longrightarrow> step E workflow state user_text = Raised e s)
   \<and> (nodes workflow = first # rest
        \<and> resolve_next workflow first state = Some pnode
        \<and> node_type pnode = PROMPT
        \<and> create_graph_fn E pnode = Inr pfn
        \<and> pfn (state\<lparr>messages := messages state @ [new_message ''user'' user_text]\<rparr>)
            = Returned pr
        \<and> find_successor workflow (node_id pnode) = Some node
        \<and> node_type node = LLM \<and> validate node = None
        \<and> llm_fn E node (pr\<lparr>last_node := Some (node_id pnode),
                               is_done := \<not> has_next_node workflow pnode\<rparr>) = Raised e s
      \<longrightarrow> step E workflow state user_text = Raised e s)
   \<and> (nodes workflow = node # rest
        \<and> node_type node = LLM \<and> validate node = None
        \<and> llm_fn E node (initial_state workflow input_text) = Raised e s
      \<longrightarrow> start E workflow input_text = Inl e)
   \<and> (nodes workflow = first # rest
        \<and> input_text = Some text \<and> text \<noteq> []
        \<and> create_graph_fn E first = Inr ffn
        \<and> ffn (initial_state workflow input_text) = Returned fr
        \<and> start_successor workflow first = Some node
        \<and> node_type node = LLM \<and> validate node = None
        \<and> llm_fn E node (fr\<lparr>last_node := Some (node_id first), is_done := False,
                               messages := messages fr @ [new_message ''user'' text]\<rparr>) = Raised e s
      \<longrightarrow> start E workflow input_text = Inl e)"
proof (intro conjI impI)
  assume "nodes workflow = first # rest
        \<and> resolve_next workflow first state = Some pnode
        \<and> node_type pnode = PROMPT
        \<and> create_graph_fn E pnode = Inr pfn
        \<and> pfn (state\<lparr>messages := messages state @ [new_message ''user'' user_text]\<rparr>)
            = Returned pr
        \<and> find_successor workflow (node_id pnode) = Some node
        \<and> node_type node = LLM \<and> validate node = None
        \<and> llm_fn E node (pr\<lparr>last_node := Some (node_id pnode),
                               is_done := \<not> has_next_node workflow pnode\<rparr>) = Raised e s"
  then show "step E workflow state user_text = Raised e s"
    by (elim conjE) (rule step_chained_llm_raises)
next
  assume "nodes workflow = node # rest
        \<and> node_type node = LLM \<and> validate node = None
        \<and> llm_fn E node (initial_state workflow input_text) = Raised e s"
  then show "start E workflow input_text = Inl e"
    by (elim conjE) (rule start_first_llm_raises)
next
  assume "nodes workflow = first # rest
        \<and> input_text = Some text \<and> text \<noteq> []
        \<and> create_graph_fn E first = Inr ffn
        \<and> ffn (initial_state workflow input_text) = Returned fr
        \<and> start_successor workflow first = Some node
        \<and> node_type node = LLM \<and> validate node = None
        \<and> llm_fn E node (fr\<lparr>last_node := Some (node_id first), is_done := False,
                               messages := messages fr @ [new_message ''user'' text]\<rparr>) = Raised e s"
  then show "start E workflow input_text = Inl e"
    by (elim conjE) (rule start_chained_llm_raises)
next
  assume "last_user_message (messages state) = None"
  then show "llm_fn E node state = Raised NoUserMessage state" by (rule llm_fn_no_user)
next
  assume "llm_answer E node state = Some (Inl e)"
  then show "llm_fn E node state = Raised e state" by (rule llm_fn_collaborator_raises)
next
  assume "llm_answer E node state = Some (Inr result) \<and> \<not> is_dict result"
  then show "llm_fn E node state = Returned (state\<lparr>last_node := Some (node_id node)\<rparr>)"
    by (simp add: llm_fn_not_a_dict)
next
  assume h: "llm_answer E node state = Some (Inr (VDict d))
        \<and> map_of (config node) ''extract'' = Some (VList (map VStr names))
        \<and> response_is_text names d"
  then have h1: "llm_answer E node state = Some (Inr (VDict d))"
    and h2: "map_of (config node) ''extract'' = Some (VList (map VStr names))"
    and h3: "response_is_text names d" by simp_all
  from llm_fn_dict [OF h1 h2 h3]
  show "\<exists>state'. llm_fn E node state = Returned state'
             \<and> (\<forall>k. map_of (variables state') k =
                    (if k \<in> set names \<and> map_of d k \<noteq> None then map_of d k
                     else map_of (variables state) k))
             \<and> messages state' =
                 messages state @ [new_message ''assistant'' (response_text E names d)]
             \<and> last_node state' = Some (node_id node) \<and> is_done state' = is_done state" .
next
  assume a: "nodes workflow = first # rest
        \<and> resolve_next workflow first state = Some node
        \<and> node_type node = LLM \<and> validate node = None
        \<and> llm_fn E node (state\<lparr>messages := messages state @ [new_message ''user'' user_text]\<rparr>)
            = Raised e s"
  then have "create_graph_fn E node = Inr (llm_fn E node)"
    by (simp add: create_graph_fn_def to_graph_fn_def)
  with a show "step E workflow state user_text = Raised e s"
    by (simp add: step_first_raises)
qed

theorem llm_fn_outcomes_witness:
  "llm_fn demo_env chat_llm empty_state = Raised NoUserMessage empty_state
   \<and> (\<exists>state'. llm_fn demo_env chat_llm said_alice = Returned state'
         \<and> map_of (variables state') ''name'' = Some (VStr ''Alice'')
         \<and> messages state' = messages said_alice @ [new_message ''assistant'' ''Nice to meet you''])
   \<and> step failing_env (mk_workflow [chat_llm] None) empty_state ''I am Alice''
       = Raised (External ''backend unavailable'') said_alice
   \<and> step failing_env ask_then_llm empty_state ''hi''
       = Raised (External ''backend unavailable'')
           \<lparr>messages = [new_message ''user'' ''hi'', new_message ''assistant'' ''Name?''],
            variables = [(''user_input'', VStr ''hi'')], last_node = Some ''ask'',
            is_done = False\<rparr>
   \<and> start failing_env (mk_workflow [chat_llm] None) (Some ''I am Alice'')
       = Inl (External ''backend unavailable'')
   \<and> start failing_env ask_then_llm (Some ''hi'') = Inl (External ''backend unavailable'')"
proof -
  have d: "step failing_env ask_then_llm empty_state ''hi''
       = Raised (External ''backend unavailable'')
           \<lparr>messages = [new_message ''user'' ''hi'', new_message ''assistant'' ''Name?''],
            variables = [(''user_input'', VStr ''hi'')], last_node = Some ''ask'',
            is_done = False\<rparr>"
    using llm_fn_outcomes [where state = empty_state and E = failing_env and node = chat_llm
        and workflow = ask_then_llm and user_text = "''hi''"]
    by (simp add: engine_defs node_defs ask_then_llm_def mk_workflow_def chat_llm_def mk_node_def
          failing_env_def demo_env_def)
  have e: "start failing_env (mk_workflow [chat_llm] None) (Some ''I am Alice'')
       = Inl (External ''backend unavailable'')"
    using llm_fn_outcomes [where E = failing_env and node = chat_llm
        and workflow = "mk_workflow [chat_llm] None" and input_text = "Some ''I am Alice''"]
    by (simp add: engine_defs node_defs mk_workflow_def chat_llm_def mk_node_def
          failing_env_def demo_env_def)
  have f: "start failing_env ask_then_llm (Some ''hi'') = Inl (External ''backend unavailable'')"
    using llm_fn_outcomes [where E = failing_env and node = chat_llm
        and workflow = ask_then_llm and input_text = "Some ''hi''"]
    by (simp add: engine_defs node_defs ask_then_llm_def mk_workflow_def chat_llm_def mk_node_def
          failing_env_def demo_env_def)
  have a: "llm_fn demo_env chat_llm empty_state = Raised NoUserMessage empty_state"
    using llm_fn_outcomes [where state = empty_state and E = demo_env and node = chat_llm]
    by (simp add: empty_state_def last_user_message_def)
  have ans: "llm_answer demo_env chat_llm said_alice =
      Some (Inr (VDict [(''response'', VStr ''Nice to meet you''), (''name'', VStr ''Alice'')]))"
    by (simp add: llm_answer_def chat_llm_def mk_node_def said_alice_def last_user_message_def
          new_message_def demo_env_def)
  have ext: "map_of (config chat_llm) ''extract'' = Some (VList (map VStr [''name'', ''response'']))"
    by (simp add: chat_llm_def mk_node_def)
  have rtext: "response_is_text [''name'', ''response'']
               [(''response'', VStr ''Nice to meet you''), (''name'', VStr ''Alice'')]"
    by (simp add: response_is_text_def)
  from llm_fn_outcomes [where state = said_alice and E = demo_env and node = chat_llm
        and d = "[(''response'', VStr ''Nice to meet you''), (''name'', VStr ''Alice'')]"
        and names = "[''name'', ''response'']",
        THEN conjunct2, THEN conjunct2, THEN conjunct2, THEN conjunct1, THEN mp,
        OF conjI [OF ans conjI [OF ext rtext]]]
  obtain state' where s': "llm_fn demo_env chat_llm said_alice = Returned state'"
      "\<And>k. map_of (variables state') k =
         (if k \<in> set [''name'', ''response'']
             \<and> map_of [(''response'', VStr ''Nice to meet you''), (''name'', VStr ''Alice'')] k \<noteq> None
          then map_of [(''response'', VStr ''Nice to meet you''), (''name'', VStr ''Alice'')] k
          else map_of (variables said_alice) k)"
      "messages state' = messages said_alice @ [new_message ''assistant''
         (response_text demo_env [''name'', ''response'']
            [(''response'', VStr ''Nice to meet you''), (''name'', VStr ''Alice'')])]"
    by blast
  from s'(2) [of "''name''"] have "map_of (variables state') ''name'' = Some (VStr ''Alice'')"
    by simp
  moreover from s'(3)
  have "messages state' = messages said_alice @ [new_message ''assistant'' ''Nice to meet you'']"
    by (simp add: response_text_def)
  ultimately have b: "\<exists>state'. llm_fn demo_env chat_llm said_alice = Returned state'
         \<and> map_of (variables state') ''name'' = Some (VStr ''Alice'')
         \<and> messages state' = messages said_alice @ [new_message ''assistant'' ''Nice to meet you'']"
    using s'(1) by blast
  have c: "step failing_env (mk_workflow [chat_llm] None) empty_state ''I am Alice''
       = Raised (External ''backend unavailable'') said_alice"
    using llm_fn_outcomes [where state = empty_state and E = failing_env and node = chat_llm
        and workflow = "mk_workflow [chat_llm] None" and first = chat_llm and rest = "[]"
        and user_text = "''I am Alice''" and e = "External ''backend unavailable''"
        and s = said_alice]
    by (simp add: engine_defs node_defs mk_workflow_def chat_llm_def mk_node_def said_alice_def
          failing_env_def demo_env_def)
  from a b c d e f show ?thesis by blast
qed

text \<open>
  The claim as it was stated fails when the backend returns a text instead of an object:
  the executor returns normally, appends nothing, and \<open>step\<close> returns a state to its caller.
\<close>

theorem llm_fn_text_answer_returns:
  "llm_fn text_env chat_llm said_alice = Returned (said_alice\<lparr>last_node := Some ''extract''\<rparr>)
   \<and> step text_env (mk_workflow [chat_llm] None) empty_state ''I am Alice''
       = Returned \<lparr>messages = [new_message ''user'' ''I am Alice''], variables = [],
                   last_node = Some ''extract'', is_done = True\<rparr>"
  by (simp add: engine_defs node_defs mk_workflow_def chat_llm_def mk_node_def said_alice_def
        text_env_def demo_env_def)

text \<open>
  The case that claim C10 names, an LLM executor that finds no prior user message, does not
  arise in \<open>step\<close>: from a state without any message, \<open>step\<close> on an LLM node appends the
  user message first, the executor finds it, and the call returns.
\<close>

theorem step_llm_finds_appended_user_message:
  "last_user_message (messages empty_state) = None
   \<and> step demo_env (mk_workflow [chat_llm] None) empty_state ''I am Alice''
       = Returned \<lparr>messages = [new_message ''user'' ''I am Alice'',
                                new_message ''assistant'' ''Nice to meet you''],
                    variables = [(''name'', VStr ''Alice''),
                                 (''response'', VStr ''Nice to meet you'')],
                    last_node = Some ''extract'', is_done = True\<rparr>"
  by (simp add: engine_defs node_defs mk_workflow_def chat_llm_def mk_node_def demo_env_def)

end
